theory Spec2Isabelle
  imports Main
begin

section \<open>Python values and exceptions\<close>

text \<open>
  The request body handed to \<open>Account.deserialize\<close> is whatever the JSON decoder
  produced: null, a boolean, an integer, a string, a list or an object with string keys.
  A dictionary is a partial map from keys to values.
\<close>

datatype pyval =
    PNone
  | PBool bool
  | PInt int
  | PStr string
  | PList "pyval list"
  | PDict "string \<Rightarrow> pyval option"

text \<open>
  The exceptions that the model layer can see. \<open>DataValidationError\<close> is the class
  declared in \<open>service/models.py\<close>; the others are Python's own. \<open>StorageError\<close>
  stands for any failure raised by the database session.
\<close>

datatype exn =
    KeyError string
  | TypeError string
  | ValueError string
  | AttributeError string
  | DataValidationError string
  | StorageError string

text \<open>Python's truth value of an object, as tested by \<open>x if c else y\<close>.\<close>

fun truthy :: "pyval \<Rightarrow> bool" where
  "truthy PNone = False"
| "truthy (PBool b) = b"
| "truthy (PInt i) = (i \<noteq> 0)"
| "truthy (PStr s) = (s \<noteq> [])"
| "truthy (PList xs) = (xs \<noteq> [])"
| "truthy (PDict m) = (m \<noteq> Map.empty)"

fun is_dict :: "pyval \<Rightarrow> bool" where
  "is_dict (PDict m) = True"
| "is_dict v = False"

fun is_str :: "pyval \<Rightarrow> bool" where
  "is_str (PStr s) = True"
| "is_str v = False"

text \<open>The name of a value's type, as it appears in the interpreter's messages.\<close>

fun type_name :: "pyval \<Rightarrow> string" where
  "type_name PNone = ''NoneType''"
| "type_name (PBool b) = ''bool''"
| "type_name (PInt i) = ''int''"
| "type_name (PStr s) = ''str''"
| "type_name (PList xs) = ''list''"
| "type_name (PDict m) = ''dict''"

text \<open>
  \<open>data[key]\<close> with a string key. A dictionary raises \<open>KeyError(key)\<close> when the key is
  absent; a list or a string accepts only integer indices and raises \<open>TypeError\<close>; the
  other values are not subscriptable and raise \<open>TypeError\<close> as well.
\<close>

fun getitem :: "pyval \<Rightarrow> string \<Rightarrow> exn + pyval" where
  "getitem (PDict m) k = (case m k of None \<Rightarrow> Inl (KeyError k) | Some v \<Rightarrow> Inr v)"
| "getitem (PList xs) k = Inl (TypeError ''list indices must be integers or slices, not str'')"
| "getitem (PStr s) k = Inl (TypeError ''string indices must be integers'')"
| "getitem v k = Inl (TypeError ([CHR 0x27] @ type_name v @ [CHR 0x27] @ '' object is not subscriptable''))"

text \<open>\<open>data.get(key)\<close>: the value, or None when the key is absent. Only a dictionary has the method.\<close>

fun py_get :: "pyval \<Rightarrow> string \<Rightarrow> exn + pyval" where
  "py_get (PDict m) k = (case m k of None \<Rightarrow> Inr PNone | Some v \<Rightarrow> Inr v)"
| "py_get v k = Inl (AttributeError ([CHR 0x27] @ type_name v @ [CHR 0x27] @ '' object has no attribute '' @ [CHR 0x27] @ ''get'' @ [CHR 0x27]))"

section \<open>Calendar dates\<close>

text \<open>
  \<open>datetime.date\<close>: a year, a month and a day. Python only builds dates with
  \<open>1 \<le> year \<le> 9999\<close>, a month in \<open>1..12\<close> and a day that the month has.
\<close>

record date =
  year :: nat
  month :: nat
  day :: nat

definition is_leap :: "nat \<Rightarrow> bool" where
  "is_leap y = (y mod 4 = 0 \<and> (y mod 100 \<noteq> 0 \<or> y mod 400 = 0))"

definition days_in_month :: "nat \<Rightarrow> nat \<Rightarrow> nat" where
  "days_in_month y m =
     (if m = 2 then (if is_leap y then 29 else 28)
      else if m = 4 \<or> m = 6 \<or> m = 9 \<or> m = 11 then 30 else 31)"

definition valid_date :: "date \<Rightarrow> bool" where
  "valid_date d =
     (1 \<le> year d \<and> year d \<le> 9999 \<and> 1 \<le> month d \<and> month d \<le> 12 \<and>
      1 \<le> day d \<and> day d \<le> days_in_month (year d) (month d))"

definition digit_chars :: string where
  "digit_chars = ''0123456789''"

definition is_digit :: "char \<Rightarrow> bool" where
  "is_digit c = (c \<in> set digit_chars)"

definition digit :: "nat \<Rightarrow> char" where
  "digit n = digit_chars ! (n mod 10)"

text \<open>The lowest \<open>w\<close> decimal digits of \<open>n\<close>, zero padded: \<open>%04d\<close> and \<open>%02d\<close> on the fields of a date.\<close>

fun dec :: "nat \<Rightarrow> nat \<Rightarrow> string" where
  "dec 0 n = []"
| "dec (Suc w) n = dec w (n div 10) @ [digit n]"

text \<open>\<open>date.isoformat()\<close>: \<open>YYYY-MM-DD\<close>.\<close>

definition isoformat :: "date \<Rightarrow> string" where
  "isoformat d = dec 4 (year d) @ ''-'' @ dec 2 (month d) @ ''-'' @ dec 2 (day d)"

definition digit_val :: "char \<Rightarrow> nat option" where
  "digit_val c = map_of (zip digit_chars [0, 1, 2, 3, 4, 5, 6, 7, 8, 9]) c"

text \<open>The number that a string of decimal digits denotes; None when a character is not a digit.\<close>

fun digits_val :: "nat \<Rightarrow> string \<Rightarrow> nat option" where
  "digits_val acc [] = Some acc"
| "digits_val acc (c # cs) =
     (case digit_val c of None \<Rightarrow> None | Some v \<Rightarrow> digits_val (10 * acc + v) cs)"

text \<open>
  The parser of the one format \<open>YYYY-MM-DD\<close>, the inverse of \<open>isoformat\<close>: exactly ten
  characters that name a date of the calendar. This is \<open>date.fromisoformat\<close> as Python
  3.7 to 3.10 define it; from Python 3.11 on the library function accepts further ISO 8601
  spellings (\<open>YYYYMMDD\<close>, week dates) and agrees with this parser on the strings that
  this parser accepts. Which strings \<open>date.fromisoformat\<close> accepts therefore depends on
  the interpreter, and \<open>deserialize\<close> below takes the interpreter's parser as a
  parameter; the parser defined here is one instance of it.
\<close>

definition fromisoformat_ymd :: "string \<Rightarrow> date option" where
  "fromisoformat_ymd s =
     (if length s = 10 \<and> s ! 4 = CHR ''-'' \<and> s ! 7 = CHR ''-'' then
        (case (digits_val 0 (take 4 s), digits_val 0 (take 2 (drop 5 s)), digits_val 0 (drop 8 s)) of
           (Some y, Some m, Some d) \<Rightarrow>
             (let dt = \<lparr>year = y, month = m, day = d\<rparr>
              in if valid_date dt then Some dt else None)
         | _ \<Rightarrow> None)
      else None)"

text \<open>
  \<open>date.fromisoformat(v)\<close> on any value. \<open>parse\<close> is the library's parser of strings,
  with None for the \<open>ValueError\<close> it raises on a string that it does not accept; an
  argument that is not a string is a \<open>TypeError\<close>.
\<close>

fun date_fromisoformat :: "(string \<Rightarrow> date option) \<Rightarrow> pyval \<Rightarrow> exn + date" where
  "date_fromisoformat parse (PStr s) =
     (case parse s of
        None \<Rightarrow> Inl (ValueError (''Invalid isoformat string: '' @ [CHR 0x27] @ s @ [CHR 0x27]))
      | Some d \<Rightarrow> Inr d)"
| "date_fromisoformat parse v = Inl (TypeError ''fromisoformat: argument must be str'')"

section \<open>The Account model\<close>

text \<open>
  An instance of \<open>Account\<close>. The primary key and the date hold what their columns
  declare (an integer and a date, or None while unset). The text attributes hold
  whatever was assigned to them: \<open>deserialize\<close> stores the values of the request body
  without looking at them.
\<close>

record account =
  acc_id :: "int option"
  name :: pyval
  email :: pyval
  address :: pyval
  phone_number :: pyval
  date_joined :: "date option"

text \<open>\<open>Account()\<close>: every attribute unset.\<close>

definition new_account :: account where
  "new_account = \<lparr>acc_id = None, name = PNone, email = PNone, address = PNone,
     phone_number = PNone, date_joined = None\<rparr>"

text \<open>
  \<open>Account.serialize\<close>: the dictionary of the six attributes. A date object is always
  true, so the date is rendered whenever the attribute is set.
\<close>

definition serialize :: "account \<Rightarrow> (string \<Rightarrow> pyval option)" where
  "serialize self =
     [''id'' \<mapsto> (case acc_id self of None \<Rightarrow> PNone | Some i \<Rightarrow> PInt i),
      ''name'' \<mapsto> name self,
      ''email'' \<mapsto> email self,
      ''address'' \<mapsto> address self,
      ''phone_number'' \<mapsto> phone_number self,
      ''date_joined'' \<mapsto> (case date_joined self of None \<Rightarrow> PNone | Some d \<Rightarrow> PStr (isoformat d))]"

text \<open>
  The body of the \<open>try\<close> block of \<open>Account.deserialize\<close>, statement by statement.
  The instance is mutated in place, so the result pairs the exception raised (None when
  the block ran to its end) with the instance as the block left it. \<open>today\<close> is what
  \<open>date.today()\<close> returns when the call is made, and \<open>parse\<close> is \<open>date.fromisoformat\<close> on
  strings.
\<close>

definition deserialize_try ::
  "(string \<Rightarrow> date option) \<Rightarrow> date \<Rightarrow> pyval \<Rightarrow> account \<Rightarrow> exn option \<times> account" where
  "deserialize_try parse today data self0 =
     (case getitem data ''name'' of Inl e \<Rightarrow> (Some e, self0) | Inr v1 \<Rightarrow>
        let self1 = self0\<lparr>name := v1\<rparr> in
      (case getitem data ''email'' of Inl e \<Rightarrow> (Some e, self1) | Inr v2 \<Rightarrow>
        let self2 = self1\<lparr>email := v2\<rparr> in
      (case getitem data ''address'' of Inl e \<Rightarrow> (Some e, self2) | Inr v3 \<Rightarrow>
        let self3 = self2\<lparr>address := v3\<rparr> in
      (case py_get data ''phone_number'' of Inl e \<Rightarrow> (Some e, self3) | Inr v4 \<Rightarrow>
        let self4 = self3\<lparr>phone_number := v4\<rparr> in
      (case py_get data ''date_joined'' of Inl e \<Rightarrow> (Some e, self4) | Inr dj \<Rightarrow>
      (case (if truthy dj then date_fromisoformat parse dj else Inr today) of
         Inl e \<Rightarrow> (Some e, self4)
       | Inr d \<Rightarrow> (None, self4\<lparr>date_joined := Some d\<rparr>)))))))"

text \<open>
  The \<open>except\<close> clauses: a \<open>KeyError\<close> and a \<open>TypeError\<close> are raised again as
  \<open>DataValidationError\<close>; any other exception leaves the method as it is.
\<close>

fun translate :: "exn \<Rightarrow> exn" where
  "translate (KeyError k) = DataValidationError (''Invalid Account: missing '' @ k)"
| "translate (TypeError m) =
     DataValidationError (''Invalid Account: body of request contained bad or no data - '' @ m)"
| "translate e = e"

text \<open>
  \<open>Account.deserialize\<close>: None in the first component means that the method returned
  (it returns the instance itself, the second component).
\<close>

definition deserialize ::
  "(string \<Rightarrow> date option) \<Rightarrow> date \<Rightarrow> pyval \<Rightarrow> account \<Rightarrow> exn option \<times> account" where
  "deserialize parse today data self0 =
     (case deserialize_try parse today data self0 of
        (None, self1) \<Rightarrow> (None, self1)
      | (Some e, self1) \<Rightarrow> (Some (translate e), self1))"

text \<open>
  The instance once the five assignments that precede the date have run on a dictionary
  \<open>m\<close> holding \<open>v1\<close>, \<open>v2\<close> and \<open>v3\<close> under the required keys.
\<close>

definition populated ::
  "(string \<Rightarrow> pyval option) \<Rightarrow> account \<Rightarrow> pyval \<Rightarrow> pyval \<Rightarrow> pyval \<Rightarrow> account" where
  "populated m self0 v1 v2 v3 =
     self0\<lparr>name := v1, email := v2, address := v3,
       phone_number := (case m ''phone_number'' of None \<Rightarrow> PNone | Some v \<Rightarrow> v)\<rparr>"

text \<open>The shape \<open>YYYY-MM-DD\<close>: four digits, a hyphen, two digits, a hyphen, two digits.\<close>

definition is_yyyy_mm_dd :: "string \<Rightarrow> bool" where
  "is_yyyy_mm_dd s =
     (length s = 10 \<and> list_all is_digit (take 4 s) \<and> s ! 4 = CHR ''-'' \<and>
      list_all is_digit (take 2 (drop 5 s)) \<and> s ! 7 = CHR ''-'' \<and>
      list_all is_digit (drop 8 s))"

section \<open>The database session\<close>

text \<open>
  Modelled from the spec: the storage session (\<open>db.session\<close> and \<open>Account.query\<close> of
  flask_sqlalchemy, and the database behind them), which is not among the sources.
  The spec's storage boundary is a session with add, commit, delete, query-all,
  query-by-id and query-filter-by-field over one table with the columns
  \<open>id\<close> (integer, primary key, assigned by the storage), \<open>name\<close> (text up to 64, not null),
  \<open>email\<close> (text up to 64, not null), \<open>address\<close> (text up to 256, not null),
  \<open>phone_number\<close> (text up to 32, nullable) and \<open>date_joined\<close> (date, not null,
  default the current date).

  The session holds the committed rows in storage order, the next value of the key
  sequence, and the work registered since the last commit.
\<close>

record session =
  table :: "account list"
  next_id :: int
  pending_new :: "account list"
  pending_deleted :: "int list"

text \<open>Modelled from the spec: the session over the table as the schema creation leaves it, without rows.\<close>

definition empty_session :: session where
  "empty_session = \<lparr>table = [], next_id = 1, pending_new = [], pending_deleted = []\<rparr>"

text \<open>Modelled from the spec: a text column of at most \<open>n\<close> characters, nullable or not.\<close>

fun text_fits :: "nat \<Rightarrow> bool \<Rightarrow> pyval \<Rightarrow> bool" where
  "text_fits n nullable (PStr s) = (length s \<le> n)"
| "text_fits n nullable PNone = nullable"
| "text_fits n nullable v = False"

text \<open>Modelled from the spec: the constraints of the table's text columns.\<close>

definition row_ok :: "account \<Rightarrow> bool" where
  "row_ok a =
     (text_fits 64 False (name a) \<and> text_fits 64 False (email a) \<and>
      text_fits 256 False (address a) \<and> text_fits 32 True (phone_number a))"

text \<open>Modelled from the spec: query-by-id on a list of rows, the first row with that key.\<close>

fun find_row :: "int \<Rightarrow> account list \<Rightarrow> account option" where
  "find_row i [] = None"
| "find_row i (r # rs) = (if acc_id r = Some i then Some r else find_row i rs)"

text \<open>
  Modelled from the spec: the insertion of one row. The storage assigns the key from
  its sequence when the instance has none, and fills in the default date; a row that
  breaks a column constraint or repeats a key is refused. The result is the row as
  stored, which is what the instance holds once the commit has refreshed it.
\<close>

definition insert_row :: "date \<Rightarrow> account \<Rightarrow> session \<Rightarrow> exn + account \<times> session" where
  "insert_row today a s =
     (let i = (case acc_id a of None \<Rightarrow> next_id s | Some j \<Rightarrow> j);
          row = a\<lparr>acc_id := Some i,
                  date_joined := Some (case date_joined a of None \<Rightarrow> today | Some d \<Rightarrow> d)\<rparr>
      in if \<not> row_ok a then Inl (StorageError ''constraint violation'')
         else if find_row i (table s) \<noteq> None then Inl (StorageError ''duplicate key'')
         else Inr (row, s\<lparr>table := table s @ [row],
                          next_id := (case acc_id a of None \<Rightarrow> next_id s + 1 | Some j \<Rightarrow> next_id s)\<rparr>))"

text \<open>Modelled from the spec: the pending instances are inserted in the order of their registration.\<close>

fun flush_new :: "date \<Rightarrow> account list \<Rightarrow> session \<Rightarrow> exn + account list \<times> session" where
  "flush_new today [] s = Inr ([], s)"
| "flush_new today (a # as) s =
     (case insert_row today a s of
        Inl e \<Rightarrow> Inl e
      | Inr (row, s1) \<Rightarrow>
          (case flush_new today as s1 of
             Inl e \<Rightarrow> Inl e
           | Inr (rows, s2) \<Rightarrow> Inr (row # rows, s2)))"

text \<open>Modelled from the spec: \<open>db.session.add(obj)\<close> registers the instance for insertion.\<close>

definition session_add :: "account \<Rightarrow> session \<Rightarrow> session" where
  "session_add obj s = s\<lparr>pending_new := pending_new s @ [obj]\<rparr>"

text \<open>
  Modelled from the spec: \<open>db.session.delete(obj)\<close> marks the row of a persisted
  instance for deletion; an instance that has no row is refused.
\<close>

definition session_delete :: "account \<Rightarrow> session \<Rightarrow> exn + session" where
  "session_delete obj s =
     (case acc_id obj of
        None \<Rightarrow> Inl (StorageError ''instance is not persisted'')
      | Some i \<Rightarrow>
          (case find_row i (table s) of
             None \<Rightarrow> Inl (StorageError ''instance is not persisted'')
           | Some r \<Rightarrow> Inr (s\<lparr>pending_deleted := pending_deleted s @ [i]\<rparr>)))"

text \<open>
  Modelled from the spec: \<open>db.session.commit()\<close> makes the registered work durable:
  the insertions, then the deletions. It returns the inserted rows next to the new
  session. A failure leaves the method with the exception.
\<close>

definition session_commit :: "date \<Rightarrow> session \<Rightarrow> exn + account list \<times> session" where
  "session_commit today s =
     (case flush_new today (pending_new s) s of
        Inl e \<Rightarrow> Inl e
      | Inr (rows, s1) \<Rightarrow>
          Inr (rows,
               s1\<lparr>table := filter (\<lambda>r. \<not> (\<exists>i \<in> set (pending_deleted s). acc_id r = Some i)) (table s1),
                  pending_new := [], pending_deleted := []\<rparr>))"

text \<open>Modelled from the spec: query-all, every committed row in storage order.\<close>

definition query_all :: "session \<Rightarrow> account list" where
  "query_all s = table s"

text \<open>Modelled from the spec: query-by-id, the committed row with that key, or None.\<close>

definition query_get :: "int \<Rightarrow> session \<Rightarrow> account option" where
  "query_get i s = find_row i (table s)"


text \<open>
  Modelled from the spec: the invariant of the data model that \<open>id\<close> is unique. Every
  committed row has a key and no two rows share one.
\<close>

definition consistent :: "session \<Rightarrow> bool" where
  "consistent s = (distinct (map acc_id (table s)) \<and> None \<notin> set (map acc_id (table s)))"

section \<open>The persistent base\<close>

text \<open>
  \<open>PersistentBase.create\<close>: \<open>db.session.add(self)\<close>, then \<open>db.session.commit()\<close>.
  The instance is the last one registered, so it comes back as the last inserted row.
  The calls to the logger are left out: they change neither the instance nor the session.
\<close>

definition create :: "date \<Rightarrow> account \<Rightarrow> session \<Rightarrow> exn + account \<times> session" where
  "create today self0 s =
     (case session_commit today (session_add self0 s) of
        Inl e \<Rightarrow> Inl e
      | Inr (objs, s1) \<Rightarrow>
          (case rev objs of
             [] \<Rightarrow> Inl (StorageError ''nothing was inserted'')
           | self1 # others \<Rightarrow> Inr (self1, s1)))"

text \<open>\<open>PersistentBase.delete\<close>: \<open>db.session.delete(self)\<close>, then \<open>db.session.commit()\<close>.\<close>

definition delete :: "date \<Rightarrow> account \<Rightarrow> session \<Rightarrow> exn + session" where
  "delete today self0 s =
     (case session_delete self0 s of
        Inl e \<Rightarrow> Inl e
      | Inr s1 \<Rightarrow>
          (case session_commit today s1 of
             Inl e \<Rightarrow> Inl e
           | Inr (objs, s2) \<Rightarrow> Inr s2))"

text \<open>
  \<open>PersistentBase.all\<close> is \<open>cls.query.all()\<close>, \<open>PersistentBase.find\<close> is
  \<open>cls.query.get(by_id)\<close> and \<open>Account.find_by_name\<close> is
  \<open>cls.query.filter(cls.name == name).all()\<close>. The names \<open>all\<close> and \<open>find\<close> belong to
  HOL, so the two methods are called \<open>all_accounts\<close> and \<open>find_account\<close> here. The
  queries are read on a session with nothing pending, as \<open>create\<close> and \<open>delete\<close> leave it.
\<close>

definition all_accounts :: "session \<Rightarrow> account list" where
  "all_accounts s = query_all s"

definition find_account :: "int \<Rightarrow> session \<Rightarrow> account option" where
  "find_account by_id s = query_get by_id s"


text \<open>
  Modelled from the spec: a session with nothing pending. The empty session is one, and
  \<open>create\<close> and \<open>delete\<close>, which end with a commit, lead from one to another.
\<close>

definition settled :: "session \<Rightarrow> bool" where
  "settled s = (pending_new s = [] \<and> pending_deleted s = [])"

section \<open>Properties of deserialize\<close>

text \<open>What \<open>deserialize\<close> does on a dictionary that has the three required keys.\<close>

lemma deserialize_try_required:
  assumes "m ''name'' = Some v1" "m ''email'' = Some v2" "m ''address'' = Some v3"
  shows "deserialize_try parse today (PDict m) self0 =
     (case (case m ''date_joined'' of None \<Rightarrow> Inr today
            | Some v \<Rightarrow> if truthy v then date_fromisoformat parse v else Inr today) of
        Inl e \<Rightarrow> (Some e, populated m self0 v1 v2 v3)
      | Inr d \<Rightarrow> (None, (populated m self0 v1 v2 v3)\<lparr>date_joined := Some d\<rparr>))"
  using assms by (simp add: deserialize_try_def populated_def Let_def split: option.split sum.split)

lemma deserialize_absent:
  assumes "m ''name'' = Some v1" "m ''email'' = Some v2" "m ''address'' = Some v3"
    and "m ''date_joined'' = None"
  shows "deserialize parse today (PDict m) self0 = (None, (populated m self0 v1 v2 v3)\<lparr>date_joined := Some today\<rparr>)"
  using assms by (simp add: deserialize_def deserialize_try_required)

lemma deserialize_falsy:
  assumes "m ''name'' = Some v1" "m ''email'' = Some v2" "m ''address'' = Some v3"
    and "m ''date_joined'' = Some v" "\<not> truthy v"
  shows "deserialize parse today (PDict m) self0 = (None, (populated m self0 v1 v2 v3)\<lparr>date_joined := Some today\<rparr>)"
  using assms by (simp add: deserialize_def deserialize_try_required)

lemma deserialize_parsed:
  assumes "m ''name'' = Some v1" "m ''email'' = Some v2" "m ''address'' = Some v3"
    and "m ''date_joined'' = Some v" "truthy v" "date_fromisoformat parse v = Inr d"
  shows "deserialize parse today (PDict m) self0 = (None, (populated m self0 v1 v2 v3)\<lparr>date_joined := Some d\<rparr>)"
  using assms by (simp add: deserialize_def deserialize_try_required)

lemma deserialize_unparsed:
  assumes "m ''name'' = Some v1" "m ''email'' = Some v2" "m ''address'' = Some v3"
    and "m ''date_joined'' = Some v" "truthy v" "date_fromisoformat parse v = Inl e"
  shows "deserialize parse today (PDict m) self0 = (Some (translate e), populated m self0 v1 v2 v3)"
  using assms by (simp add: deserialize_def deserialize_try_required)

text \<open>
  Claim C2. A dictionary that lacks one of the required keys \<open>name\<close>, \<open>email\<close>,
  \<open>address\<close> makes \<open>deserialize\<close> fail with a \<open>DataValidationError\<close> whose message
  names a key that is missing: the first one missing in the order name, email, address.
  For the empty dictionary the message names \<open>name\<close>.
\<close>

theorem deserialize_missing_key:
  assumes "m ''name'' = None \<or> m ''email'' = None \<or> m ''address'' = None"
  shows "(\<exists>k. (k = ''name'' \<or> k = ''email'' \<or> k = ''address'') \<and> m k = None \<and>
            fst (deserialize parse today (PDict m) self0) =
              Some (DataValidationError (''Invalid Account: missing '' @ k))) \<and>
         (if m ''name'' = None then
            fst (deserialize parse today (PDict m) self0) =
              Some (DataValidationError ''Invalid Account: missing name'')
          else if m ''email'' = None then
            fst (deserialize parse today (PDict m) self0) =
              Some (DataValidationError ''Invalid Account: missing email'')
          else
            fst (deserialize parse today (PDict m) self0) =
              Some (DataValidationError ''Invalid Account: missing address'')) \<and>
         fst (deserialize parse today (PDict Map.empty) self0) =
           Some (DataValidationError ''Invalid Account: missing name'')"
proof -
  have n: "m ''name'' = None \<Longrightarrow> fst (deserialize parse today (PDict m) self0) =
      Some (DataValidationError ''Invalid Account: missing name'')" for m
    by (simp add: deserialize_def deserialize_try_def)
  have e: "m ''name'' \<noteq> None \<Longrightarrow> m ''email'' = None \<Longrightarrow>
      fst (deserialize parse today (PDict m) self0) =
      Some (DataValidationError ''Invalid Account: missing email'')"
    by (auto simp: deserialize_def deserialize_try_def)
  have a: "m ''name'' \<noteq> None \<Longrightarrow> m ''email'' \<noteq> None \<Longrightarrow> m ''address'' = None \<Longrightarrow>
      fst (deserialize parse today (PDict m) self0) =
      Some (DataValidationError ''Invalid Account: missing address'')"
    by (auto simp: deserialize_def deserialize_try_def)
  have ordered: "if m ''name'' = None then
            fst (deserialize parse today (PDict m) self0) =
              Some (DataValidationError ''Invalid Account: missing name'')
          else if m ''email'' = None then
            fst (deserialize parse today (PDict m) self0) =
              Some (DataValidationError ''Invalid Account: missing email'')
          else
            fst (deserialize parse today (PDict m) self0) =
              Some (DataValidationError ''Invalid Account: missing address'')"
  proof (cases "m ''name'' = None")
    case True
    with n [of m] show ?thesis by simp
  next
    case nm: False
    show ?thesis
    proof (cases "m ''email'' = None")
      case True
      with nm e show ?thesis by simp
    next
      case em: False
      from nm em assms have "m ''address'' = None" by auto
      with nm em a show ?thesis by simp
    qed
  qed
  have some: "\<exists>k. (k = ''name'' \<or> k = ''email'' \<or> k = ''address'') \<and> m k = None \<and>
            fst (deserialize parse today (PDict m) self0) =
              Some (DataValidationError (''Invalid Account: missing '' @ k))"
  proof (cases "m ''name'' = None")
    case True
    with n [of m] show ?thesis by (intro exI [of _ "''name''"]) simp
  next
    case nm: False
    show ?thesis
    proof (cases "m ''email'' = None")
      case True
      with nm e show ?thesis by (intro exI [of _ "''email''"]) simp
    next
      case em: False
      from nm em assms have ad: "m ''address'' = None" by auto
      with nm em a show ?thesis by (intro exI [of _ "''address''"]) simp
    qed
  qed
  from some ordered n [of Map.empty] show ?thesis by simp
qed

theorem deserialize_missing_key_witness:
  "fst (deserialize fromisoformat_ymd \<lparr>year = 2024, month = 2, day = 29\<rparr>
      (PDict [''name'' \<mapsto> PStr ''Ann'', ''address'' \<mapsto> PStr ''1 Main St''])
      new_account) = Some (DataValidationError ''Invalid Account: missing email'')"
  using deserialize_missing_key [of "[''name'' \<mapsto> PStr ''Ann'', ''address'' \<mapsto> PStr ''1 Main St'']"
      fromisoformat_ymd "\<lparr>year = 2024, month = 2, day = 29\<rparr>" new_account]
  by simp

text \<open>
  Claim C3. An input that is not a dictionary makes \<open>deserialize\<close> fail with the
  \<open>DataValidationError\<close> for a bad request body. The failure comes from a \<open>TypeError\<close>
  of the first subscription, the instance is untouched, and the message is never that
  of a missing key.
\<close>

theorem deserialize_not_a_mapping:
  assumes "\<not> is_dict data"
  shows "\<exists>msg. deserialize_try parse today data self0 = (Some (TypeError msg), self0) \<and>
           deserialize parse today data self0 =
             (Some (DataValidationError
                (''Invalid Account: body of request contained bad or no data - '' @ msg)), self0) \<and>
           (\<forall>k. DataValidationError
                (''Invalid Account: body of request contained bad or no data - '' @ msg) \<noteq>
              DataValidationError (''Invalid Account: missing '' @ k))"
  using assms by (cases data) (simp_all add: deserialize_def deserialize_try_def)

theorem deserialize_not_a_mapping_witness:
  "deserialize fromisoformat_ymd \<lparr>year = 2024, month = 2, day = 29\<rparr> (PList []) new_account =
     (Some (DataValidationError
        ''Invalid Account: body of request contained bad or no data - list indices must be integers or slices, not str''),
      new_account)"
  using deserialize_not_a_mapping [of "PList []" fromisoformat_ymd "\<lparr>year = 2024, month = 2, day = 29\<rparr>" new_account]
  by (simp add: deserialize_def deserialize_try_def)

text \<open>
  Claim C9. \<open>deserialize\<close> is not atomic: on a dictionary that has \<open>name\<close> and lacks
  \<open>email\<close>, the \<open>DataValidationError\<close> for the missing email is raised after the
  instance's name has been overwritten with the dictionary's value.
\<close>

theorem deserialize_partial_mutation:
  assumes "m ''name'' = Some v" and "m ''email'' = None"
  shows "deserialize parse today (PDict m) self0 =
           (Some (DataValidationError ''Invalid Account: missing email''), self0\<lparr>name := v\<rparr>)"
  using assms by (simp add: deserialize_def deserialize_try_def)

theorem deserialize_partial_mutation_witness:
  "deserialize fromisoformat_ymd \<lparr>year = 2024, month = 2, day = 29\<rparr> (PDict [''name'' \<mapsto> PStr ''Ann'']) new_account =
     (Some (DataValidationError ''Invalid Account: missing email''),
      new_account\<lparr>name := PStr ''Ann''\<rparr>) \<and>
   name (new_account\<lparr>name := PStr ''Ann''\<rparr>) \<noteq> name new_account"
  using deserialize_partial_mutation [of "[''name'' \<mapsto> PStr ''Ann'']" "PStr ''Ann''"
      fromisoformat_ymd "\<lparr>year = 2024, month = 2, day = 29\<rparr>" new_account]
  by (simp add: new_account_def)

section \<open>Properties of serialize\<close>

text \<open>The rendering of a date and its parsing.\<close>

lemma length_dec: "length (dec w n) = w"
  by (induction w arbitrary: n) simp_all

lemma is_digit_digit: "is_digit (digit n)"
  unfolding is_digit_def digit_def
  by (rule nth_mem) (simp add: digit_chars_def)

lemma digits_dec: "list_all is_digit (dec w n)"
  by (induction w arbitrary: n) (simp_all add: is_digit_digit)

lemma isoformat_shape: "is_yyyy_mm_dd (isoformat d)"
  by (simp add: is_yyyy_mm_dd_def isoformat_def length_dec digits_dec nth_append)

lemma digit_val_digit: "digit_val (digit n) = Some (n mod 10)"
proof -
  have "n mod 10 < 10" by simp
  then have "n mod 10 = 0 \<or> n mod 10 = 1 \<or> n mod 10 = 2 \<or> n mod 10 = 3 \<or> n mod 10 = 4 \<or>
      n mod 10 = 5 \<or> n mod 10 = 6 \<or> n mod 10 = 7 \<or> n mod 10 = 8 \<or> n mod 10 = 9"
    by presburger
  then show ?thesis
    unfolding digit_val_def digit_def digit_chars_def
    by (elim disjE) simp_all
qed

lemma digits_val_append:
  "digits_val acc (xs @ ys) = (case digits_val acc xs of None \<Rightarrow> None | Some a \<Rightarrow> digits_val a ys)"
  by (induction xs arbitrary: acc) (simp_all split: option.split)

lemma digits_val_dec: "digits_val acc (dec w n) = Some (acc * 10 ^ w + n mod 10 ^ w)"
proof (induction w arbitrary: acc n)
  case 0
  then show ?case by simp
next
  case (Suc w)
  have "n mod (10 * 10 ^ w) = 10 * (n div 10 mod 10 ^ w) + n mod 10"
    by (rule mod_mult2_eq)
  then show ?case
    by (simp add: digits_val_append Suc.IH digit_val_digit algebra_simps)
qed

lemma fromisoformat_ymd_isoformat:
  assumes "valid_date d"
  shows "fromisoformat_ymd (isoformat d) = Some d"
proof -
  have y: "year d < 10 ^ 4" and m: "month d < 10 ^ 2" and dd: "day d < 10 ^ 2"
    using assms by (auto simp: valid_date_def days_in_month_def split: if_splits)
  have t1: "take 4 (isoformat d) = dec 4 (year d)"
    by (simp add: isoformat_def length_dec)
  have t2: "take 2 (drop 5 (isoformat d)) = dec 2 (month d)"
    by (simp add: isoformat_def length_dec)
  have t3: "drop 8 (isoformat d) = dec 2 (day d)"
    by (simp add: isoformat_def length_dec)
  have len: "length (isoformat d) = 10"
    by (simp add: isoformat_def length_dec)
  have h4: "isoformat d ! 4 = CHR ''-''" and h7: "isoformat d ! 7 = CHR ''-''"
    by (simp_all add: isoformat_def length_dec nth_append)
  have rec: "\<lparr>year = year d, month = month d, day = day d\<rparr> = d"
    by (cases d) simp
  show ?thesis
    unfolding fromisoformat_ymd_def t1 t2 t3
    using y m dd assms by (simp add: len h4 h7 digits_val_dec rec)
qed


lemma dec_2: "dec 2 n = [digit (n div 10), digit n]"
proof -
  have "dec 2 n = dec (Suc (Suc 0)) n" by (simp add: numeral_2_eq_2)
  then show ?thesis by simp
qed

lemma dec_4: "dec 4 n = [digit (n div 10 div 10 div 10), digit (n div 10 div 10), digit (n div 10), digit n]"
proof -
  have "(4::nat) = Suc (Suc (Suc (Suc 0)))" by simp
  then have "dec 4 n = dec (Suc (Suc (Suc (Suc 0)))) n" by (rule arg_cong)
  then show ?thesis by simp
qed

text \<open>
  Claim C5. \<open>serialize\<close> is a function of the instance alone: it takes the instance and
  returns a dictionary, nothing else is read or written, and two instances that agree on
  the six attributes serialize to the same dictionary. The dictionary has exactly
  the six keys \<open>id\<close>, \<open>name\<close>, \<open>email\<close>, \<open>address\<close>, \<open>phone_number\<close> and \<open>date_joined\<close>,
  each holding the attribute of that name. The date is None when the attribute is unset;
  when it is set it is the string \<open>YYYY-MM-DD\<close>, which for a date of the calendar parses
  back to that date.
\<close>

theorem serialize_mapping:
  "dom (serialize self0) =
     {''id'', ''name'', ''email'', ''address'', ''phone_number'', ''date_joined''} \<and>
   serialize self0 ''id'' = Some (case acc_id self0 of None \<Rightarrow> PNone | Some i \<Rightarrow> PInt i) \<and>
   serialize self0 ''name'' = Some (name self0) \<and>
   serialize self0 ''email'' = Some (email self0) \<and>
   serialize self0 ''address'' = Some (address self0) \<and>
   serialize self0 ''phone_number'' = Some (phone_number self0) \<and>
   (case date_joined self0 of
      None \<Rightarrow> serialize self0 ''date_joined'' = Some PNone
    | Some d \<Rightarrow>
        serialize self0 ''date_joined'' = Some (PStr (isoformat d)) \<and>
        is_yyyy_mm_dd (isoformat d) \<and>
        (valid_date d \<longrightarrow> fromisoformat_ymd (isoformat d) = Some d)) \<and>
   (\<forall>other. acc_id other = acc_id self0 \<and> name other = name self0 \<and>
      email other = email self0 \<and> address other = address self0 \<and>
      phone_number other = phone_number self0 \<and> date_joined other = date_joined self0 \<longrightarrow>
      serialize other = serialize self0)"
proof -
  have keys: "dom (serialize self0) =
     {''id'', ''name'', ''email'', ''address'', ''phone_number'', ''date_joined''}"
    unfolding serialize_def by auto
  have fields: "serialize self0 ''id'' = Some (case acc_id self0 of None \<Rightarrow> PNone | Some i \<Rightarrow> PInt i)"
    "serialize self0 ''name'' = Some (name self0)"
    "serialize self0 ''email'' = Some (email self0)"
    "serialize self0 ''address'' = Some (address self0)"
    "serialize self0 ''phone_number'' = Some (phone_number self0)"
    "serialize self0 ''date_joined'' =
       Some (case date_joined self0 of None \<Rightarrow> PNone | Some d \<Rightarrow> PStr (isoformat d))"
    unfolding serialize_def by simp_all
  have same: "\<forall>other. acc_id other = acc_id self0 \<and> name other = name self0 \<and>
      email other = email self0 \<and> address other = address self0 \<and>
      phone_number other = phone_number self0 \<and> date_joined other = date_joined self0 \<longrightarrow>
      serialize other = serialize self0"
    by (simp add: serialize_def)
  have date: "case date_joined self0 of
      None \<Rightarrow> serialize self0 ''date_joined'' = Some PNone
    | Some d \<Rightarrow>
        serialize self0 ''date_joined'' = Some (PStr (isoformat d)) \<and>
        is_yyyy_mm_dd (isoformat d) \<and>
        (valid_date d \<longrightarrow> fromisoformat_ymd (isoformat d) = Some d)"
    by (simp add: fields isoformat_shape fromisoformat_ymd_isoformat split: option.split)
  show ?thesis
    by (intro conjI) (rule keys fields date same)+
qed

theorem serialize_mapping_witness:
  "serialize \<lparr>acc_id = Some 7, name = PStr ''Ann'', email = PStr ''ann@example.com'',
       address = PStr ''1 Main St'', phone_number = PNone,
       date_joined = Some \<lparr>year = 2024, month = 2, day = 29\<rparr>\<rparr> ''date_joined'' =
     Some (PStr ''2024-02-29'') \<and>
   fromisoformat_ymd ''2024-02-29'' = Some \<lparr>year = 2024, month = 2, day = 29\<rparr> \<and>
   serialize new_account ''date_joined'' = Some PNone"
proof -
  have v: "valid_date \<lparr>year = 2024, month = 2, day = 29\<rparr>"
    by (simp add: valid_date_def days_in_month_def is_leap_def)
  have i: "isoformat \<lparr>year = 2024, month = 2, day = 29\<rparr> = ''2024-02-29''"
    by (simp add: isoformat_def dec_2 dec_4 digit_def digit_chars_def)
  note date_conj = conjunct2 [THEN conjunct2, THEN conjunct2, THEN conjunct2, THEN conjunct2,
      THEN conjunct2, THEN conjunct1]
  note set_date = serialize_mapping [of "\<lparr>acc_id = Some 7, name = PStr ''Ann'',
       email = PStr ''ann@example.com'', address = PStr ''1 Main St'', phone_number = PNone,
       date_joined = Some \<lparr>year = 2024, month = 2, day = 29\<rparr>\<rparr>", THEN date_conj]
  note unset_date = serialize_mapping [of new_account, THEN date_conj]
  from set_date unset_date v show ?thesis
    by (simp add: i new_account_def)
qed

section \<open>Deserialize, then serialize\<close>

text \<open>
  Claim C1, as stated, fails: a dictionary that has \<open>name\<close>, \<open>email\<close> and \<open>address\<close>
  with text values and a \<open>date_joined\<close> that is not an ISO date makes \<open>deserialize\<close>
  raise \<open>ValueError\<close>, so there is nothing to serialize. The string of the example is
  refused by \<open>date.fromisoformat\<close> of every Python version; the parser of the format
  \<open>YYYY-MM-DD\<close> stands for it.
\<close>

theorem roundtrip_invalid_date_counterexample:
  "deserialize fromisoformat_ymd \<lparr>year = 2024, month = 2, day = 29\<rparr>
     (PDict [''name'' \<mapsto> PStr ''Ann'', ''email'' \<mapsto> PStr ''ann@example.com'',
             ''address'' \<mapsto> PStr ''1 Main St'', ''date_joined'' \<mapsto> PStr ''not-a-date''])
     new_account =
   (Some (ValueError (''Invalid isoformat string: '' @ [CHR 0x27] @ ''not-a-date'' @ [CHR 0x27])),
    new_account\<lparr>name := PStr ''Ann'', email := PStr ''ann@example.com'',
      address := PStr ''1 Main St'', phone_number := PNone\<rparr>)"
  by (simp add: deserialize_def deserialize_try_def fromisoformat_ymd_def)

text \<open>
  Claim C1, amended. For every dictionary that has \<open>name\<close>, \<open>email\<close> and \<open>address\<close> with
  text values, and whose \<open>date_joined\<close> is absent, false (None, the empty string) or a
  string that \<open>date.fromisoformat\<close> parses as an ISO date, \<open>deserialize\<close> returns, and
  \<open>serialize\<close> of the instance holds the input's \<open>name\<close>, \<open>email\<close> and \<open>address\<close> and a
  date string. This holds whatever parser the interpreter has.
\<close>

theorem deserialize_serialize_roundtrip:
  assumes "m ''name'' = Some (PStr n)" and "m ''email'' = Some (PStr e)"
    and "m ''address'' = Some (PStr a)"
    and "case m ''date_joined'' of
           None \<Rightarrow> True
         | Some v \<Rightarrow> \<not> truthy v \<or> (\<exists>s d. v = PStr s \<and> parse s = Some d)"
  shows "\<exists>self1. deserialize parse today (PDict m) self0 = (None, self1) \<and>
           serialize self1 ''name'' = m ''name'' \<and>
           serialize self1 ''email'' = m ''email'' \<and>
           serialize self1 ''address'' = m ''address'' \<and>
           (\<exists>s. serialize self1 ''date_joined'' = Some (PStr s))"
proof -
  let ?p = "populated m self0 (PStr n) (PStr e) (PStr a)"
  have "\<exists>d. deserialize parse today (PDict m) self0 = (None, ?p\<lparr>date_joined := Some d\<rparr>)"
  proof (cases "m ''date_joined''")
    case None
    with assms show ?thesis by (auto simp: deserialize_absent)
  next
    case (Some v)
    show ?thesis
    proof (cases "truthy v")
      case False
      with assms Some show ?thesis by (auto simp: deserialize_falsy)
    next
      case True
      with assms(4) Some obtain s d where "v = PStr s" and "parse s = Some d"
        by auto
      then have "date_fromisoformat parse v = Inr d" by simp
      with assms Some True show ?thesis by (auto simp: deserialize_parsed)
    qed
  qed
  then obtain d where r: "deserialize parse today (PDict m) self0 = (None, ?p\<lparr>date_joined := Some d\<rparr>)" ..
  have "serialize (?p\<lparr>date_joined := Some d\<rparr>) ''name'' = m ''name''"
    "serialize (?p\<lparr>date_joined := Some d\<rparr>) ''email'' = m ''email''"
    "serialize (?p\<lparr>date_joined := Some d\<rparr>) ''address'' = m ''address''"
    "serialize (?p\<lparr>date_joined := Some d\<rparr>) ''date_joined'' = Some (PStr (isoformat d))"
    using assms by (simp_all add: serialize_def populated_def)
  with r show ?thesis by blast
qed

theorem deserialize_serialize_roundtrip_witness:
  "\<exists>self1. deserialize fromisoformat_ymd \<lparr>year = 2024, month = 2, day = 29\<rparr>
       (PDict [''name'' \<mapsto> PStr ''Ann'', ''email'' \<mapsto> PStr ''ann@example.com'',
               ''address'' \<mapsto> PStr ''1 Main St'', ''date_joined'' \<mapsto> PStr ''2023-11-05''])
       new_account = (None, self1) \<and>
     serialize self1 ''name'' = Some (PStr ''Ann'') \<and>
     serialize self1 ''email'' = Some (PStr ''ann@example.com'') \<and>
     serialize self1 ''address'' = Some (PStr ''1 Main St'') \<and>
     (\<exists>s. serialize self1 ''date_joined'' = Some (PStr s))"
proof -
  have p: "fromisoformat_ymd ''2023-11-05'' = Some \<lparr>year = 2023, month = 11, day = 5\<rparr>"
    by (simp add: fromisoformat_ymd_def digit_val_def digit_chars_def valid_date_def
        days_in_month_def)
  show ?thesis
    using deserialize_serialize_roundtrip [of
        "[''name'' \<mapsto> PStr ''Ann'', ''email'' \<mapsto> PStr ''ann@example.com'',
          ''address'' \<mapsto> PStr ''1 Main St'', ''date_joined'' \<mapsto> PStr ''2023-11-05'']"
        "''Ann''" "''ann@example.com''" "''1 Main St''" fromisoformat_ymd
        "\<lparr>year = 2024, month = 2, day = 29\<rparr>" new_account]
    by (simp add: p)
qed

section \<open>The date of joining\<close>

text \<open>
  Claim C4, as stated, fails: the key \<open>date_joined\<close> may be present with a value that
  is no ISO date string and \<open>deserialize\<close> still returns. The value None, which
  \<open>serialize\<close> itself writes for an unset date, is false, so it is never parsed and the
  date becomes the current one.
\<close>

theorem date_joined_null_counterexample:
  "date_fromisoformat fromisoformat_ymd PNone = Inl (TypeError ''fromisoformat: argument must be str'') \<and>
   deserialize fromisoformat_ymd \<lparr>year = 2024, month = 2, day = 29\<rparr>
     (PDict [''name'' \<mapsto> PStr ''Ann'', ''email'' \<mapsto> PStr ''ann@example.com'',
             ''address'' \<mapsto> PStr ''1 Main St'', ''date_joined'' \<mapsto> PNone])
     new_account =
   (None,
    new_account\<lparr>name := PStr ''Ann'', email := PStr ''ann@example.com'',
      address := PStr ''1 Main St'', phone_number := PNone,
      date_joined := Some \<lparr>year = 2024, month = 2, day = 29\<rparr>\<rparr>)"
  by (simp add: deserialize_def deserialize_try_def)

text \<open>
  Claim C4, amended. On a dictionary that has the required keys, and for whatever
  parser \<open>date.fromisoformat\<close> is in the interpreter: when \<open>date_joined\<close> is present with a
  true value (a non-empty string in particular), the value must be a string that the
  parser accepts as an ISO date, the parsed date is stored, and any other true value
  makes \<open>deserialize\<close> raise; when \<open>date_joined\<close> is absent, or present with a false
  value (None, the empty string, zero, an empty container), the date becomes the current
  date of the call, whatever date the instance held before. The example after the
  theorem runs the parser of \<open>YYYY-MM-DD\<close>, and a parser that accepts \<open>20231105\<close> as
  well, as Python 3.11 does.
\<close>

theorem deserialize_date_joined:
  assumes "m ''name'' = Some v1" and "m ''email'' = Some v2" and "m ''address'' = Some v3"
  shows "(\<forall>s d. m ''date_joined'' = Some (PStr s) \<and> s \<noteq> [] \<and> parse s = Some d \<longrightarrow>
            deserialize parse today (PDict m) self0 =
              (None, (populated m self0 v1 v2 v3)\<lparr>date_joined := Some d\<rparr>)) \<and>
         (\<forall>v. m ''date_joined'' = Some v \<and> truthy v \<and>
              \<not> (\<exists>s d. v = PStr s \<and> parse s = Some d) \<longrightarrow>
            (\<exists>e. deserialize parse today (PDict m) self0 = (Some e, populated m self0 v1 v2 v3))) \<and>
         (\<forall>v. m ''date_joined'' = Some v \<and> \<not> truthy v \<longrightarrow>
            deserialize parse today (PDict m) self0 =
              (None, (populated m self0 v1 v2 v3)\<lparr>date_joined := Some today\<rparr>)) \<and>
         (m ''date_joined'' = None \<longrightarrow>
            deserialize parse today (PDict m) self0 =
              (None, (populated m self0 v1 v2 v3)\<lparr>date_joined := Some today\<rparr>))"
proof (intro conjI allI impI)
  fix s d
  assume "m ''date_joined'' = Some (PStr s) \<and> s \<noteq> [] \<and> parse s = Some d"
  with assms show "deserialize parse today (PDict m) self0 =
      (None, (populated m self0 v1 v2 v3)\<lparr>date_joined := Some d\<rparr>)"
    by (simp add: deserialize_parsed)
next
  fix v
  assume a: "m ''date_joined'' = Some v \<and> truthy v \<and>
    \<not> (\<exists>s d. v = PStr s \<and> parse s = Some d)"
  then have "\<exists>e. date_fromisoformat parse v = Inl e"
    by (cases v) (auto split: option.split)
  then obtain e where "date_fromisoformat parse v = Inl e" ..
  with assms a have "deserialize parse today (PDict m) self0 =
      (Some (translate e), populated m self0 v1 v2 v3)"
    by (simp add: deserialize_unparsed)
  then show "\<exists>e. deserialize parse today (PDict m) self0 = (Some e, populated m self0 v1 v2 v3)"
    by blast
next
  fix v
  assume "m ''date_joined'' = Some v \<and> \<not> truthy v"
  with assms show "deserialize parse today (PDict m) self0 =
      (None, (populated m self0 v1 v2 v3)\<lparr>date_joined := Some today\<rparr>)"
    by (simp add: deserialize_falsy)
next
  assume "m ''date_joined'' = None"
  with assms show "deserialize parse today (PDict m) self0 =
      (None, (populated m self0 v1 v2 v3)\<lparr>date_joined := Some today\<rparr>)"
    by (simp add: deserialize_absent)
qed

theorem deserialize_date_joined_witness:
  "deserialize fromisoformat_ymd \<lparr>year = 2024, month = 2, day = 29\<rparr>
     (PDict [''name'' \<mapsto> PStr ''Ann'', ''email'' \<mapsto> PStr ''ann@example.com'',
             ''address'' \<mapsto> PStr ''1 Main St''])
     (new_account\<lparr>date_joined := Some \<lparr>year = 1999, month = 12, day = 31\<rparr>\<rparr>) =
   (None,
    \<lparr>acc_id = None, name = PStr ''Ann'', email = PStr ''ann@example.com'',
      address = PStr ''1 Main St'', phone_number = PNone,
      date_joined = Some \<lparr>year = 2024, month = 2, day = 29\<rparr>\<rparr>) \<and>
   deserialize fromisoformat_ymd \<lparr>year = 2024, month = 2, day = 29\<rparr>
     (PDict [''name'' \<mapsto> PStr ''Ann'', ''email'' \<mapsto> PStr ''ann@example.com'',
             ''address'' \<mapsto> PStr ''1 Main St'', ''date_joined'' \<mapsto> PStr ''2023-11-05''])
     new_account =
   (None,
    \<lparr>acc_id = None, name = PStr ''Ann'', email = PStr ''ann@example.com'',
      address = PStr ''1 Main St'', phone_number = PNone,
      date_joined = Some \<lparr>year = 2023, month = 11, day = 5\<rparr>\<rparr>) \<and>
   deserialize (fromisoformat_ymd(''20231105'' \<mapsto> \<lparr>year = 2023, month = 11, day = 5\<rparr>))
     \<lparr>year = 2024, month = 2, day = 29\<rparr>
     (PDict [''name'' \<mapsto> PStr ''Ann'', ''email'' \<mapsto> PStr ''ann@example.com'',
             ''address'' \<mapsto> PStr ''1 Main St'', ''date_joined'' \<mapsto> PStr ''20231105''])
     new_account =
   (None,
    \<lparr>acc_id = None, name = PStr ''Ann'', email = PStr ''ann@example.com'',
      address = PStr ''1 Main St'', phone_number = PNone,
      date_joined = Some \<lparr>year = 2023, month = 11, day = 5\<rparr>\<rparr>)"
proof -
  have p: "fromisoformat_ymd ''2023-11-05'' = Some \<lparr>year = 2023, month = 11, day = 5\<rparr>"
    by (simp add: fromisoformat_ymd_def digit_val_def digit_chars_def valid_date_def
        days_in_month_def)
  show ?thesis
    using deserialize_date_joined [of
        "[''name'' \<mapsto> PStr ''Ann'', ''email'' \<mapsto> PStr ''ann@example.com'',
          ''address'' \<mapsto> PStr ''1 Main St'']"
        "PStr ''Ann''" "PStr ''ann@example.com''" "PStr ''1 Main St''" fromisoformat_ymd
        "\<lparr>year = 2024, month = 2, day = 29\<rparr>"
        "new_account\<lparr>date_joined := Some \<lparr>year = 1999, month = 12, day = 31\<rparr>\<rparr>"]
      deserialize_date_joined [of
        "[''name'' \<mapsto> PStr ''Ann'', ''email'' \<mapsto> PStr ''ann@example.com'',
          ''address'' \<mapsto> PStr ''1 Main St'', ''date_joined'' \<mapsto> PStr ''2023-11-05'']"
        "PStr ''Ann''" "PStr ''ann@example.com''" "PStr ''1 Main St''" fromisoformat_ymd
        "\<lparr>year = 2024, month = 2, day = 29\<rparr>" new_account]
      deserialize_date_joined [of
        "[''name'' \<mapsto> PStr ''Ann'', ''email'' \<mapsto> PStr ''ann@example.com'',
          ''address'' \<mapsto> PStr ''1 Main St'', ''date_joined'' \<mapsto> PStr ''20231105'']"
        "PStr ''Ann''" "PStr ''ann@example.com''" "PStr ''1 Main St''"
        "fromisoformat_ymd(''20231105'' \<mapsto> \<lparr>year = 2023, month = 11, day = 5\<rparr>)"
        "\<lparr>year = 2024, month = 2, day = 29\<rparr>" new_account]
    by (simp add: p populated_def new_account_def)
qed

text \<open>
  Claim C10, as stated, fails in its second half: a \<open>date_joined\<close> that is not a
  string is translated into a \<open>DataValidationError\<close> only when it is true. The integer
  zero is false, so \<open>deserialize\<close> returns with the current date.
\<close>

theorem date_joined_zero_counterexample:
  "\<not> is_str (PInt 0) \<and>
   deserialize fromisoformat_ymd \<lparr>year = 2024, month = 2, day = 29\<rparr>
     (PDict [''name'' \<mapsto> PStr ''Ann'', ''email'' \<mapsto> PStr ''ann@example.com'',
             ''address'' \<mapsto> PStr ''1 Main St'', ''date_joined'' \<mapsto> PInt 0])
     new_account =
   (None,
    new_account\<lparr>name := PStr ''Ann'', email := PStr ''ann@example.com'',
      address := PStr ''1 Main St'', phone_number := PNone,
      date_joined := Some \<lparr>year = 2024, month = 2, day = 29\<rparr>\<rparr>)"
  by (simp add: deserialize_def deserialize_try_def)

text \<open>
  Claim C10, amended. On a dictionary that has the required keys, and for whatever
  parser \<open>date.fromisoformat\<close> is in the interpreter: a \<open>date_joined\<close> that is a non-empty
  string which the parser refuses makes \<open>deserialize\<close> raise a \<open>ValueError\<close>, which is not
  translated and is no \<open>DataValidationError\<close>; a \<open>date_joined\<close> that is true and not a
  string (a non-zero integer, for one) makes it raise the \<open>DataValidationError\<close> for a
  bad request body.
\<close>

theorem deserialize_bad_date:
  assumes "m ''name'' = Some v1" and "m ''email'' = Some v2" and "m ''address'' = Some v3"
  shows "(\<forall>s. m ''date_joined'' = Some (PStr s) \<and> s \<noteq> [] \<and> parse s = None \<longrightarrow>
            (\<exists>msg. fst (deserialize parse today (PDict m) self0) = Some (ValueError msg)) \<and>
            (\<forall>msg. fst (deserialize parse today (PDict m) self0) \<noteq> Some (DataValidationError msg))) \<and>
         (\<forall>v. m ''date_joined'' = Some v \<and> \<not> is_str v \<and> truthy v \<longrightarrow>
            fst (deserialize parse today (PDict m) self0) =
              Some (DataValidationError
                ''Invalid Account: body of request contained bad or no data - fromisoformat: argument must be str''))"
proof (intro conjI allI impI)
  fix s
  assume a: "m ''date_joined'' = Some (PStr s) \<and> s \<noteq> [] \<and> parse s = None"
  then have dj: "m ''date_joined'' = Some (PStr s)" and tr: "truthy (PStr s)"
    and df: "date_fromisoformat parse (PStr s) =
      Inl (ValueError (''Invalid isoformat string: '' @ [CHR 0x27] @ s @ [CHR 0x27]))"
    by simp_all
  have r: "deserialize parse today (PDict m) self0 =
      (Some (translate (ValueError (''Invalid isoformat string: '' @ [CHR 0x27] @ s @ [CHR 0x27]))),
       populated m self0 v1 v2 v3)"
    by (rule deserialize_unparsed [OF assms dj tr df])
  from r show "\<exists>msg. fst (deserialize parse today (PDict m) self0) = Some (ValueError msg)"
    by simp
  from r show "\<And>msg. fst (deserialize parse today (PDict m) self0) \<noteq> Some (DataValidationError msg)"
    by simp
next
  fix v
  assume a: "m ''date_joined'' = Some v \<and> \<not> is_str v \<and> truthy v"
  then have df: "date_fromisoformat parse v = Inl (TypeError ''fromisoformat: argument must be str'')"
    by (cases v) simp_all
  from a have dj: "m ''date_joined'' = Some v" and tr: "truthy v"
    by simp_all
  have "deserialize parse today (PDict m) self0 =
      (Some (translate (TypeError ''fromisoformat: argument must be str'')),
       populated m self0 v1 v2 v3)"
    by (rule deserialize_unparsed [OF assms dj tr df])
  then show "fst (deserialize parse today (PDict m) self0) =
      Some (DataValidationError
        ''Invalid Account: body of request contained bad or no data - fromisoformat: argument must be str'')"
    by simp
qed

theorem deserialize_bad_date_witness:
  "(\<exists>msg. fst (deserialize fromisoformat_ymd \<lparr>year = 2024, month = 2, day = 29\<rparr>
       (PDict [''name'' \<mapsto> PStr ''Ann'', ''email'' \<mapsto> PStr ''ann@example.com'',
               ''address'' \<mapsto> PStr ''1 Main St'', ''date_joined'' \<mapsto> PStr ''not-a-date''])
       new_account) = Some (ValueError msg)) \<and>
   fst (deserialize fromisoformat_ymd \<lparr>year = 2024, month = 2, day = 29\<rparr>
       (PDict [''name'' \<mapsto> PStr ''Ann'', ''email'' \<mapsto> PStr ''ann@example.com'',
               ''address'' \<mapsto> PStr ''1 Main St'', ''date_joined'' \<mapsto> PInt 20231105])
       new_account) =
     Some (DataValidationError
       ''Invalid Account: body of request contained bad or no data - fromisoformat: argument must be str'')"
proof -
  have p: "fromisoformat_ymd ''not-a-date'' = None"
    by (simp add: fromisoformat_ymd_def)
  show ?thesis
    using deserialize_bad_date [of
        "[''name'' \<mapsto> PStr ''Ann'', ''email'' \<mapsto> PStr ''ann@example.com'',
          ''address'' \<mapsto> PStr ''1 Main St'', ''date_joined'' \<mapsto> PStr ''not-a-date'']"
        "PStr ''Ann''" "PStr ''ann@example.com''" "PStr ''1 Main St''" fromisoformat_ymd
        "\<lparr>year = 2024, month = 2, day = 29\<rparr>" new_account]
      deserialize_bad_date [of
        "[''name'' \<mapsto> PStr ''Ann'', ''email'' \<mapsto> PStr ''ann@example.com'',
          ''address'' \<mapsto> PStr ''1 Main St'', ''date_joined'' \<mapsto> PInt 20231105]"
        "PStr ''Ann''" "PStr ''ann@example.com''" "PStr ''1 Main St''" fromisoformat_ymd
        "\<lparr>year = 2024, month = 2, day = 29\<rparr>" new_account]
    by (simp add: p)
qed

section \<open>Properties of the record lifecycle\<close>

text \<open>Lookups in the table, and the lifecycle operations on a session with nothing pending.\<close>

lemma find_row_append:
  "find_row i (xs @ ys) = (case find_row i xs of None \<Rightarrow> find_row i ys | Some r \<Rightarrow> Some r)"
  by (induction xs) simp_all


lemma find_row_None: "find_row i rs = None \<longleftrightarrow> (\<forall>r \<in> set rs. acc_id r \<noteq> Some i)"
  by (induction rs) auto

lemma find_row_filter_out: "find_row i (filter (\<lambda>r. acc_id r \<noteq> Some i) rs) = None"
  by (simp add: find_row_None)

lemma create_settled:
  assumes "settled s"
  shows "create today self0 s =
     (case insert_row today self0 s of
        Inl e \<Rightarrow> Inl e
      | Inr (row, s1) \<Rightarrow> Inr (row, s1\<lparr>pending_new := [], pending_deleted := []\<rparr>))"
  using assms
  by (auto simp: create_def session_commit_def session_add_def settled_def
      insert_row_def Let_def split: option.split)

lemma delete_settled:
  assumes "settled s"
  shows "delete today self0 s =
     (case acc_id self0 of
        None \<Rightarrow> Inl (StorageError ''instance is not persisted'')
      | Some i \<Rightarrow>
          (case find_row i (table s) of
             None \<Rightarrow> Inl (StorageError ''instance is not persisted'')
           | Some r \<Rightarrow> Inr (s\<lparr>table := filter (\<lambda>r. acc_id r \<noteq> Some i) (table s)\<rparr>)))"
  using assms
  by (simp add: delete_def session_delete_def session_commit_def settled_def
      split: option.split)

text \<open>
  Claim C6. For a transient account (no id yet) and a session with nothing pending:
  whenever \<open>create\<close> returns, the instance has an id, \<open>find\<close> of that id returns a
  record equal to the instance, the record is among \<open>all()\<close>, and the instance kept its
  name, email, address and phone number; its date is the one it had, or the current date
  when it had none. \<open>create\<close> does return when the row meets the column constraints and
  the next key is free.
\<close>

theorem create_then_find:
  assumes "acc_id self0 = None" and "settled s"
  shows "(row_ok self0 \<and> find_row (next_id s) (table s) = None \<longrightarrow>
            (\<exists>self1 s1. create today self0 s = Inr (self1, s1))) \<and>
         (\<forall>self1 s1. create today self0 s = Inr (self1, s1) \<longrightarrow>
            acc_id self1 = Some (next_id s) \<and>
            find_account (next_id s) s1 = Some self1 \<and>
            self1 \<in> set (all_accounts s1) \<and>
            name self1 = name self0 \<and> email self1 = email self0 \<and>
            address self1 = address self0 \<and> phone_number self1 = phone_number self0 \<and>
            date_joined self1 = Some (case date_joined self0 of None \<Rightarrow> today | Some d \<Rightarrow> d) \<and>
            settled s1)"
proof (intro conjI allI impI)
  assume "row_ok self0 \<and> find_row (next_id s) (table s) = None"
  with assms show "\<exists>self1 s1. create today self0 s = Inr (self1, s1)"
    by (simp add: create_settled insert_row_def Let_def)
next
  fix self1 s1
  assume c: "create today self0 s = Inr (self1, s1)"
  let ?row = "self0\<lparr>acc_id := Some (next_id s),
      date_joined := Some (case date_joined self0 of None \<Rightarrow> today | Some d \<Rightarrow> d)\<rparr>"
  from c assms have fresh: "find_row (next_id s) (table s) = None"
    by (auto simp: create_settled insert_row_def Let_def split: if_splits)
  from c assms have row: "self1 = ?row"
    by (auto simp: create_settled insert_row_def Let_def split: if_splits)
  from c assms have s1: "s1 = s\<lparr>table := table s @ [?row], next_id := next_id s + 1,
      pending_new := [], pending_deleted := []\<rparr>"
    by (auto simp: create_settled insert_row_def Let_def split: if_splits)
  show "acc_id self1 = Some (next_id s)" by (simp add: row)
  show "find_account (next_id s) s1 = Some self1"
    by (simp add: find_account_def query_get_def s1 row find_row_append fresh)
  show "self1 \<in> set (all_accounts s1)" by (simp add: all_accounts_def query_all_def s1 row)
  show "name self1 = name self0" by (simp add: row)
  show "email self1 = email self0" by (simp add: row)
  show "address self1 = address self0" by (simp add: row)
  show "phone_number self1 = phone_number self0" by (simp add: row)
  show "date_joined self1 = Some (case date_joined self0 of None \<Rightarrow> today | Some d \<Rightarrow> d)"
    by (simp add: row)
  show "settled s1" by (simp add: s1 settled_def)
qed

theorem create_then_find_witness:
  "\<exists>self1 s1.
     create \<lparr>year = 2024, month = 2, day = 29\<rparr>
       \<lparr>acc_id = None, name = PStr ''Ann'', email = PStr ''ann@example.com'',
        address = PStr ''1 Main St'', phone_number = PNone, date_joined = None\<rparr>
       empty_session = Inr (self1, s1) \<and>
     self1 = \<lparr>acc_id = Some 1, name = PStr ''Ann'', email = PStr ''ann@example.com'',
        address = PStr ''1 Main St'', phone_number = PNone,
        date_joined = Some \<lparr>year = 2024, month = 2, day = 29\<rparr>\<rparr> \<and>
     find_account 1 s1 = Some self1"
proof -
  let ?a = "\<lparr>acc_id = None, name = PStr ''Ann'', email = PStr ''ann@example.com'',
        address = PStr ''1 Main St'', phone_number = PNone, date_joined = None\<rparr>"
  let ?d = "\<lparr>year = 2024, month = 2, day = 29\<rparr>"
  have t: "acc_id ?a = None" by simp
  have e: "settled empty_session" by (simp add: settled_def empty_session_def)
  have ok: "row_ok ?a \<and> find_row (next_id empty_session) (table empty_session) = None"
    by (simp add: row_ok_def empty_session_def)
  note th = create_then_find [OF t e, of ?d]
  from th ok obtain self1 s1 where c: "create ?d ?a empty_session = Inr (self1, s1)"
    by blast
  with th have p: "acc_id self1 = Some (next_id empty_session)"
    "find_account (next_id empty_session) s1 = Some self1"
    "name self1 = name ?a" "email self1 = email ?a" "address self1 = address ?a"
    "phone_number self1 = phone_number ?a"
    "date_joined self1 = Some (case date_joined ?a of None \<Rightarrow> ?d | Some d \<Rightarrow> d)"
    by blast+
  have n: "next_id empty_session = 1" by (simp add: empty_session_def)
  from p have "self1 = \<lparr>acc_id = Some 1, name = PStr ''Ann'', email = PStr ''ann@example.com'',
        address = PStr ''1 Main St'', phone_number = PNone,
        date_joined = Some \<lparr>year = 2024, month = 2, day = 29\<rparr>\<rparr>"
    by (cases self1) (simp add: n)
  with c p(2) n show ?thesis by simp
qed

text \<open>
  Claim C7. For a persisted account (it has an id and the table has its row) and a
  session with nothing pending, \<open>delete\<close> returns; afterwards \<open>find\<close> of that id returns
  None and no record of \<open>all()\<close> has that id.
\<close>

theorem delete_then_find:
  assumes "settled s" and "acc_id self0 = Some i" and "find_account i s \<noteq> None"
  shows "\<exists>s1. delete today self0 s = Inr s1 \<and>
           find_account i s1 = None \<and>
           (\<forall>r \<in> set (all_accounts s1). acc_id r \<noteq> Some i) \<and>
           settled s1"
proof -
  let ?s1 = "s\<lparr>table := filter (\<lambda>r. acc_id r \<noteq> Some i) (table s)\<rparr>"
  from assms have d: "delete today self0 s = Inr ?s1"
    by (auto simp: delete_settled find_account_def query_get_def)
  have f: "find_account i ?s1 = None"
    by (simp add: find_account_def query_get_def find_row_filter_out)
  have a: "\<forall>r \<in> set (all_accounts ?s1). acc_id r \<noteq> Some i"
    by (simp add: all_accounts_def query_all_def)
  from assms(1) have t: "settled ?s1"
    by (simp add: settled_def)
  from d f a t show ?thesis by blast
qed

theorem delete_then_find_witness:
  "delete \<lparr>year = 2024, month = 2, day = 29\<rparr>
     \<lparr>acc_id = Some 1, name = PStr ''Ann'', email = PStr ''ann@example.com'',
      address = PStr ''1 Main St'', phone_number = PNone,
      date_joined = Some \<lparr>year = 2024, month = 2, day = 29\<rparr>\<rparr>
     \<lparr>table = [\<lparr>acc_id = Some 1, name = PStr ''Ann'', email = PStr ''ann@example.com'',
        address = PStr ''1 Main St'', phone_number = PNone,
        date_joined = Some \<lparr>year = 2024, month = 2, day = 29\<rparr>\<rparr>],
      next_id = 2, pending_new = [], pending_deleted = []\<rparr> =
   Inr \<lparr>table = [], next_id = 2, pending_new = [], pending_deleted = []\<rparr> \<and>
   find_account 1 \<lparr>table = [], next_id = 2, pending_new = [], pending_deleted = []\<rparr> = None"
proof -
  let ?r = "\<lparr>acc_id = Some 1, name = PStr ''Ann'', email = PStr ''ann@example.com'',
      address = PStr ''1 Main St'', phone_number = PNone,
      date_joined = Some \<lparr>year = 2024, month = 2, day = 29\<rparr>\<rparr>"
  let ?s = "\<lparr>table = [?r], next_id = 2, pending_new = [], pending_deleted = []\<rparr>"
  have e: "settled ?s" by (simp add: settled_def)
  have i: "acc_id ?r = Some 1" by simp
  have f: "find_account 1 ?s \<noteq> None" by (simp add: find_account_def query_get_def)
  from delete_then_find [OF e i f, of "\<lparr>year = 2024, month = 2, day = 29\<rparr>"]
  show ?thesis by (simp add: delete_settled [OF e] find_account_def query_get_def)
qed


lemma consistent_empty: "consistent empty_session"
  by (simp add: consistent_def empty_session_def)

lemma create_consistent:
  assumes "settled s" and "consistent s" and "create today self0 s = Inr (self1, s1)"
  shows "consistent s1"
proof -
  let ?i = "case acc_id self0 of None \<Rightarrow> next_id s | Some j \<Rightarrow> j"
  from assms(1,3) have fresh: "find_row ?i (table s) = None"
    by (auto simp: create_settled insert_row_def Let_def split: if_splits)
  from assms(1,3) have "\<exists>row. acc_id row = Some ?i \<and> table s1 = table s @ [row]"
    by (auto simp: create_settled insert_row_def Let_def split: if_splits)
  then obtain row where row: "acc_id row = Some ?i" and t: "table s1 = table s @ [row]"
    by blast
  from fresh have "Some ?i \<notin> set (map acc_id (table s))"
    by (auto simp: find_row_None)
  with assms(2) row t show ?thesis
    by (simp add: consistent_def)
qed

lemma delete_consistent:
  assumes "settled s" and "consistent s" and "delete today self0 s = Inr s1"
  shows "consistent s1"
proof -
  from assms(1,3) have "\<exists>i. table s1 = filter (\<lambda>r. acc_id r \<noteq> Some i) (table s)"
    by (auto simp: delete_settled split: option.splits)
  then obtain i where "table s1 = filter (\<lambda>r. acc_id r \<noteq> Some i) (table s)" ..
  with assms(2) show ?thesis
    by (auto simp: consistent_def distinct_map_filter)
qed



end
